theory Spec2Isabelle
  imports Main "HOL-Library.Signed_Division"
begin

section \<open>Shape inference engine of torch\_glow: data model\<close>

text \<open>
  The development embeds \<^verbatim>\<open>torch_glow/src/ShapeInferenceEngine.cpp\<close>.
  Values of type \<^verbatim>\<open>int64_t\<close> are modelled as \<^typ>\<open>int\<close>. Where the source
  multiplies or adds up dimensions (the products of \<^verbatim>\<open>reshape\<close>, the sum of
  \<^verbatim>\<open>fusedConcat\<close>) the result is wrapped to 64 bits by \<open>wrap64\<close>, as the compiled
  code does. The C++ operators \<^verbatim>\<open>/\<close> and \<^verbatim>\<open>%\<close> truncate towards zero; they are
  \<open>sdiv\<close> and \<open>smod\<close>.

  Every way a function of the source can stop without a result is a constructor of
  \<open>error\<close>. The first group are the messages of \<^verbatim>\<open>MAKE_ERR\<close> and
  \<^verbatim>\<open>RETURN_ERR_IF_NOT\<close>, one constructor per message. The last five are not
  error values of the source: \<open>CheckFailed\<close> is a failed \<^verbatim>\<open>CHECK\<close> (the process
  aborts), \<open>VectorOutOfRange\<close> is a read or write of a \<^verbatim>\<open>std::vector\<close> outside
  its bounds, \<open>DivisionByZero\<close> an integer division or remainder by zero and
  \<open>DivisionOverflow\<close> the division or remainder of the least 64-bit integer by \<open>-1\<close>
  (all three undefined behaviour), \<open>AccessorFailed\<close> is a failed assertion inside an accessor
  of the graph library (\<^verbatim>\<open>node->output()\<close> on a node that does not have exactly
  one output, \<^verbatim>\<open>node->output(0)\<close> on a node without outputs).
\<close>

datatype error =
    ExpectedOneInputShape
  | ExpectedTwoOrThreeInputs
  | SizeMismatch int int
  | ExpectedTwoInputs
  | Expected2D
  | MmSizeMismatch int int
  | Expected3D
  | BatchSizeMismatch
  | BmmSizeMismatch int int
  | ExpectedAtLeastThreeInputs nat
  | ExpectedOneInput nat
  | DimOutOfRange
  | ExpectedAtLeastOneInput nat
  | RankMismatch
  | ConcatSizeMismatch int
  | ExpectedFiveInputs nat
  | ExpectedIntInSlice
  | ExpectedTwoInputShapes nat
  | UndeterminedDimension
  | ReshapeSizeInvalid
  | PermuteRankMismatch
  | NegativeShuffleDim
  | ShuffleDimTooLarge
  | ExpectedIntInListConstruct
  | StackDimOutOfRange
  | StackShapeMismatch
  | ExpectedEightInputs nat
  | Expected1DOffset nat
  | EmbeddingBagInputRank
  | UnsupportedOperator string
  | NumInputsMismatch
  | InputTypeUnsupported
  | CheckFailed
  | VectorOutOfRange
  | DivisionByZero
  | DivisionOverflow
  | AccessorFailed

text \<open>
  \<^verbatim>\<open>VariableMeta\<close> (declared in the header): the shape of a value and, for scalars
  and integer lists, the value itself. \<^verbatim>\<open>MetaStack\<close> is a vector of them.
\<close>

record VariableMeta =
  shape :: "int list"
  intValue :: "int list"

type_synonym MetaStack = "VariableMeta list"

text \<open>Sequencing of results: the first error is returned.\<close>

definition bind_err :: "error + 'a \<Rightarrow> ('a \<Rightarrow> error + 'b) \<Rightarrow> error + 'b" where
  "bind_err r f = (case r of Inl e \<Rightarrow> Inl e | Inr v \<Rightarrow> f v)"

text \<open>
  \<^verbatim>\<open>v[k]\<close> on a \<^verbatim>\<open>std::vector\<close>. The index of the source has type
  \<^verbatim>\<open>size_t\<close>; \<open>k\<close> is its value before the conversion, so a negative \<open>k\<close>
  stands for an index near \<open>2^64\<close>, which is out of range as well.
\<close>

definition vec_at :: "'a list \<Rightarrow> int \<Rightarrow> error + 'a" where
  "vec_at xs k =
     (if 0 \<le> k \<and> k < int (length xs) then Inr (xs ! nat k) else Inl VectorOutOfRange)"

definition vec_set :: "'a list \<Rightarrow> int \<Rightarrow> 'a \<Rightarrow> error + 'a list" where
  "vec_set xs k v =
     (if 0 \<le> k \<and> k < int (length xs) then Inr (xs[nat k := v]) else Inl VectorOutOfRange)"

text \<open>
  The value of a 64-bit two's complement integer after an operation whose exact result
  is \<open>x\<close>: \<open>x\<close> reduced modulo \<open>2^64\<close> into the range from \<open>-2^63\<close> to \<open>2^63 - 1\<close>.
\<close>

definition wrap64 :: "int \<Rightarrow> int" where
  "wrap64 x = (x + 2 ^ 63) mod 2 ^ 64 - 2 ^ 63"

section \<open>Operator rules\<close>

subsection \<open>Elementwise binary operators with broadcasting\<close>

text \<open>
  One iteration of the loop of \<^verbatim>\<open>binaryOp\<close>, for the index \<open>i\<close> counted from the
  trailing end (\<open>j = -1 - i\<close>). The two tests \<^verbatim>\<open>i >= d0 || t0[d0 + j] == 1\<close> and
  \<^verbatim>\<open>i >= d1 || t1[d1 + j] == 1\<close> short-circuit, as in the source.
\<close>

definition binaryOp_step ::
  "int list \<Rightarrow> int list \<Rightarrow> nat \<Rightarrow> nat \<Rightarrow> int list \<Rightarrow> error + int list" where
  "binaryOp_step t0 t1 dim i shp =
     (let d0 = int (length t0); d1 = int (length t1); j = - 1 - int i in
      bind_err (if int i \<ge> d0 then Inr True
                else bind_err (vec_at t0 (d0 + j)) (\<lambda>a. Inr (a = 1))) (\<lambda>c0.
      if c0 then
        bind_err (vec_at t1 (d1 + j)) (\<lambda>b. vec_set shp (int dim + j) b)
      else
        bind_err (if int i \<ge> d1 then Inr True
                  else bind_err (vec_at t1 (d1 + j)) (\<lambda>b. Inr (b = 1))) (\<lambda>c1.
        if c1 then
          bind_err (vec_at t0 (d0 + j)) (\<lambda>a. vec_set shp (int dim + j) a)
        else
          bind_err (vec_at t1 (d1 + j)) (\<lambda>b.
          bind_err (vec_at t0 (d0 + j)) (\<lambda>a.
          if b \<noteq> a then Inl (SizeMismatch a b)
          else vec_set shp (int dim + j) b)))))"

function binaryOp_loop ::
  "int list \<Rightarrow> int list \<Rightarrow> nat \<Rightarrow> nat \<Rightarrow> int list \<Rightarrow> error + int list" where
  "binaryOp_loop t0 t1 dim i shp =
     (if i < dim then
        (case binaryOp_step t0 t1 dim i shp of
           Inl e \<Rightarrow> Inl e
         | Inr shp' \<Rightarrow> binaryOp_loop t0 t1 dim (Suc i) shp')
      else Inr shp)"
  by pat_completeness auto
termination
  by (relation "measure (\<lambda>(t0, t1, dim, i, shp). dim - i)") auto

declare binaryOp_loop.simps [simp del]

definition binaryOp :: "MetaStack \<Rightarrow> error + int list" where
  "binaryOp variableMetas =
     (if length variableMetas \<noteq> 2 \<and> length variableMetas \<noteq> 3 then
        Inl ExpectedTwoOrThreeInputs
      else
        let t0 = shape (variableMetas ! 0); t1 = shape (variableMetas ! 1);
            d0 = length t0; d1 = length t1
        in if d1 = 1 then Inr t0
           else let dim = max d0 d1
                in binaryOp_loop t0 t1 dim 0 (replicate dim 0))"

subsection \<open>Matrix products\<close>

definition mm :: "MetaStack \<Rightarrow> error + int list" where
  "mm variableMetas =
     (if length variableMetas \<noteq> 2 then Inl ExpectedTwoInputs
      else
        let t0 = shape (variableMetas ! 0); t1 = shape (variableMetas ! 1)
        in if \<not> (length t1 = 2 \<and> length t0 = 2) then Inl Expected2D
           else
             bind_err (vec_at t0 1) (\<lambda>a1.
             bind_err (vec_at t1 0) (\<lambda>b0.
             if a1 \<noteq> b0 then Inl (MmSizeMismatch a1 b0)
             else
               bind_err (vec_at t0 0) (\<lambda>a0.
               bind_err (vec_at t1 1) (\<lambda>b1. Inr [a0, b1])))))"

definition bmm :: "MetaStack \<Rightarrow> error + int list" where
  "bmm variableMetas =
     (if length variableMetas \<noteq> 2 then Inl ExpectedTwoInputs
      else
        let t0 = shape (variableMetas ! 0); t1 = shape (variableMetas ! 1)
        in if \<not> (length t0 = 3 \<and> length t1 = 3) then Inl Expected3D
           else
             bind_err (vec_at t0 0) (\<lambda>a0.
             bind_err (vec_at t1 0) (\<lambda>b0.
             if a0 \<noteq> b0 then Inl BatchSizeMismatch
             else
               bind_err (vec_at t0 2) (\<lambda>a2.
               bind_err (vec_at t1 1) (\<lambda>b1.
               if a2 \<noteq> b1 then Inl (BmmSizeMismatch a2 b1)
               else
                 bind_err (vec_at t0 1) (\<lambda>a1.
                 bind_err (vec_at t1 2) (\<lambda>b2. Inr [a0, a1, b2])))))))"

text \<open>
  \<^verbatim>\<open>addmm\<close>: \<open>t\<close> is a default-constructed \<^verbatim>\<open>VariableMeta\<close> (both vectors
  empty) that receives either a copy of \<open>mat1\<close> or the shape computed by \<open>mm\<close>.
\<close>

definition addmm :: "MetaStack \<Rightarrow> error + int list" where
  "addmm variableMetas =
     (if \<not> length variableMetas \<ge> 3 then
        Inl (ExpectedAtLeastThreeInputs (length variableMetas))
      else
        let t0 = variableMetas ! 0; t1 = variableMetas ! 1; t2 = variableMetas ! 2
        in if length (shape (variableMetas ! 2)) = 1 then
             binaryOp [t0, variableMetas ! 1]
           else
             bind_err (mm [t1, t2]) (\<lambda>s.
             binaryOp [t0, \<lparr>shape = s, intValue = []\<rparr>]))"

subsection \<open>Constant chunking\<close>

text \<open>
  The loop of \<^verbatim>\<open>constantChunk\<close>: piece \<open>i\<close> is a copy of the input shape with
  entry \<open>dim\<close> overwritten, by \<open>r\<close> for the last piece and by \<open>c\<close> otherwise.
\<close>

function constantChunk_loop ::
  "int list \<Rightarrow> int \<Rightarrow> int \<Rightarrow> int \<Rightarrow> int \<Rightarrow> nat \<Rightarrow> int list list \<Rightarrow> error + int list list" where
  "constantChunk_loop shp dim chunks c r i outShapes =
     (if int i < chunks then
        (case vec_set shp dim (if int i = chunks - 1 then r else c) of
           Inl e \<Rightarrow> Inl e
         | Inr shp' \<Rightarrow> constantChunk_loop shp dim chunks c r (Suc i) (outShapes @ [shp']))
      else Inr outShapes)"
  by pat_completeness auto
termination
  by (relation "measure (\<lambda>(shp, dim, chunks, c, r, i, outShapes). nat (chunks - int i))") auto

declare constantChunk_loop.simps [simp del]

definition constantChunk :: "MetaStack \<Rightarrow> int \<Rightarrow> int \<Rightarrow> error + int list list" where
  "constantChunk variableMetas chunks dim0 =
     (if length variableMetas \<noteq> 1 then Inl (ExpectedOneInput (length variableMetas))
      else
        let shp = shape (variableMetas ! 0);
            dim = (if dim0 < 0 then dim0 + int (length shp) else dim0)
        in if \<not> (dim < int (length shp) \<and> dim \<ge> 0) then Inl DimOutOfRange
           else
             bind_err (vec_at shp dim) (\<lambda>size.
             if chunks = 0 then Inl DivisionByZero
             else
               let c = (size + chunks - 1) sdiv chunks;
                   r = size - c * (chunks - 1)
               in constantChunk_loop shp dim chunks c r 0 []))"

subsection \<open>Fused concatenation\<close>

text \<open>
  The inner loop over the dimensions \<open>j\<close> of one further input \<open>s\<close>, and the outer loop
  over the inputs after the first.
\<close>

fun fusedConcat_dims :: "int \<Rightarrow> int list \<Rightarrow> nat list \<Rightarrow> int list \<Rightarrow> error + int list" where
  "fusedConcat_dims dim s [] shp = Inr shp"
| "fusedConcat_dims dim s (j # js) shp =
     (if int j = dim then
        bind_err (vec_at shp dim) (\<lambda>a.
        bind_err (vec_at s dim) (\<lambda>b.
        bind_err (vec_set shp dim (wrap64 (a + b))) (\<lambda>shp'. fusedConcat_dims dim s js shp')))
      else
        bind_err (vec_at shp (int j)) (\<lambda>a.
        bind_err (vec_at s (int j)) (\<lambda>b.
        if \<not> a = b then Inl (ConcatSizeMismatch dim)
        else fusedConcat_dims dim s js shp)))"

fun fusedConcat_loop :: "int \<Rightarrow> int \<Rightarrow> MetaStack \<Rightarrow> int list \<Rightarrow> error + int list" where
  "fusedConcat_loop dim inDims [] shp = Inr shp"
| "fusedConcat_loop dim inDims (m # ms) shp =
     (if \<not> inDims = int (length (shape m)) then Inl RankMismatch
      else
        bind_err (fusedConcat_dims dim (shape m) [0..<nat inDims] shp) (\<lambda>shp'.
        fusedConcat_loop dim inDims ms shp'))"

definition fusedConcat :: "MetaStack \<Rightarrow> int \<Rightarrow> error + int list" where
  "fusedConcat variableMetas dim0 =
     (if \<not> length variableMetas \<ge> 1 then Inl (ExpectedAtLeastOneInput (length variableMetas))
      else if length variableMetas = 1 then Inr (shape (variableMetas ! 0))
      else
        let shp = shape (variableMetas ! 0);
            inDims = int (length (shape (variableMetas ! 0)));
            dim = (if dim0 < 0 then dim0 + inDims else dim0)
        in if \<not> (dim < inDims \<and> dim \<ge> 0) then Inl DimOutOfRange
           else fusedConcat_loop dim inDims (drop 1 variableMetas) shp)"

subsection \<open>Slice\<close>

definition slice :: "MetaStack \<Rightarrow> error + int list" where
  "slice variableMetas =
     (if length variableMetas \<noteq> 5 then Inl (ExpectedFiveInputs (length variableMetas))
      else if \<exists>i \<in> {1, 2, 3, 4}. length (shape (variableMetas ! i)) \<noteq> 1 then
        Inl ExpectedIntInSlice
      else
        bind_err (vec_at (intValue (variableMetas ! 1)) 0) (\<lambda>dim.
        bind_err (vec_at (intValue (variableMetas ! 2)) 0) (\<lambda>start.
        bind_err (vec_at (intValue (variableMetas ! 3)) 0) (\<lambda>end.
        bind_err (vec_at (intValue (variableMetas ! 4)) 0) (\<lambda>step.
        bind_err (vec_at (shape (variableMetas ! 0)) dim) (\<lambda>inDims.
        let shp = shape (variableMetas ! 0) in
        if start \<ge> inDims \<or> end \<le> - inDims then vec_set shp dim 0
        else
          let start' = (if start \<le> - inDims then 0
                        else if start > - inDims \<and> start < 0 then start + inDims
                        else start);
              end' = (if end > inDims then inDims
                      else if end > - inDims \<and> end < 0 then end + inDims
                      else end)
          in if start' \<ge> end' then vec_set shp dim 0
             else if step = 0 then Inl DivisionByZero
             else
               bind_err (vec_set shp dim ((end' - start') sdiv step)) (\<lambda>shp'.
               if (end' - start') smod step \<noteq> 0 then
                 bind_err (vec_at shp' dim) (\<lambda>q. vec_set shp' dim (q + 1))
               else Inr shp')))))))"

subsection \<open>Reshape\<close>

text \<open>
  The second loop of \<^verbatim>\<open>reshape\<close>, over the entries of the target list with their
  index \<open>i\<close>: \<open>s1\<close> is multiplied by every entry, the placeholder included, and
  \<open>negIndex\<close> keeps the index of the first placeholder (\<open>-1\<close> while there is none).
  The products \<^verbatim>\<open>s0 *= i\<close> and \<^verbatim>\<open>s1 *= ...\<close> and the negation \<^verbatim>\<open>-s0\<close> are
  64-bit operations. The remainder \<^verbatim>\<open>s0 % s1\<close> is undefined for \<open>s1 = 0\<close>, and for
  \<open>s0 = -2^63\<close> with \<open>s1 = -1\<close>; past it the quotient \<^verbatim>\<open>-s0 / s1\<close> is defined.
\<close>

fun reshape_loop :: "int list \<Rightarrow> nat \<Rightarrow> int \<Rightarrow> int \<Rightarrow> error + (int \<times> int)" where
  "reshape_loop [] i s1 negIndex = Inr (s1, negIndex)"
| "reshape_loop (v # vs) i s1 negIndex =
     (if v = - 1 then
        (if negIndex = - 1 then reshape_loop vs (Suc i) (wrap64 (s1 * v)) (int i)
         else Inl UndeterminedDimension)
      else reshape_loop vs (Suc i) (wrap64 (s1 * v)) negIndex)"

definition reshape :: "MetaStack \<Rightarrow> error + int list" where
  "reshape variableMetas =
     (if length variableMetas \<noteq> 2 then Inl (ExpectedTwoInputShapes (length variableMetas))
      else
        let s0 = foldl (\<lambda>s i. wrap64 (s * i)) 1 (shape (variableMetas ! 0)) in
        bind_err (reshape_loop (intValue (variableMetas ! 1)) 0 1 (- 1)) (\<lambda>(s1, negIndex).
        if s1 = 0 then Inl DivisionByZero
        else if s0 = - (2 ^ 63) \<and> s1 = - 1 then Inl DivisionOverflow
        else if \<not> s0 smod s1 = 0 then Inl ReshapeSizeInvalid
        else
          let shp = intValue (variableMetas ! 1) in
          if negIndex \<noteq> - 1 then vec_set shp negIndex (wrap64 (- s0) sdiv s1)
          else Inr shp))"

subsection \<open>Permute\<close>

fun permute_loop :: "int list \<Rightarrow> int \<Rightarrow> int list \<Rightarrow> int list \<Rightarrow> error + int list" where
  "permute_loop t0 inDims [] shp = Inr shp"
| "permute_loop t0 inDims (dim # dims) shp =
     (if \<not> dim \<ge> 0 then Inl NegativeShuffleDim
      else if \<not> dim < inDims then Inl ShuffleDimTooLarge
      else bind_err (vec_at t0 dim) (\<lambda>d. permute_loop t0 inDims dims (shp @ [d])))"

definition permute :: "MetaStack \<Rightarrow> error + int list" where
  "permute variableMetas =
     (if length variableMetas \<noteq> 2 then Inl (ExpectedTwoInputShapes (length variableMetas))
      else
        let inDims = int (length (shape (variableMetas ! 0)))
        in if \<not> inDims = int (length (intValue (variableMetas ! 1))) then Inl PermuteRankMismatch
           else permute_loop (shape (variableMetas ! 0)) inDims (intValue (variableMetas ! 1)) [])"

subsection \<open>List construction\<close>

fun listConstruct_loop :: "MetaStack \<Rightarrow> int list \<Rightarrow> error + int list" where
  "listConstruct_loop [] intValueList = Inr intValueList"
| "listConstruct_loop (ele # rest) intValueList =
     (if \<not> length (shape ele) = 1 then Inl ExpectedIntInListConstruct
      else bind_err (vec_at (intValue ele) 0) (\<lambda>v. listConstruct_loop rest (intValueList @ [v])))"

definition listConstruct :: "MetaStack \<Rightarrow> error + int list" where
  "listConstruct variableMetas =
     (if \<not> length variableMetas \<ge> 1 then Inl (ExpectedAtLeastOneInput (length variableMetas))
      else listConstruct_loop variableMetas [])"

subsection \<open>Fused stacking\<close>

fun fusedStack_loop :: "MetaStack \<Rightarrow> int list \<Rightarrow> error + unit" where
  "fusedStack_loop [] shp = Inr ()"
| "fusedStack_loop (eleShape # rest) shp =
     (if \<not> shape eleShape = shp then Inl StackShapeMismatch else fusedStack_loop rest shp)"

definition fusedStack :: "MetaStack \<Rightarrow> int \<Rightarrow> error + int list" where
  "fusedStack variableMetas dim0 =
     (if \<not> length variableMetas \<ge> 1 then Inl (ExpectedAtLeastOneInput (length variableMetas))
      else if length variableMetas = 1 then Inr (shape (variableMetas ! 0))
      else
        let inDims = int (length (shape (variableMetas ! 0)));
            dim = (if dim0 < 0 then dim0 + (inDims + 1) else dim0)
        in if \<not> (dim < inDims + 1 \<and> dim \<ge> 0) then Inl StackDimOutOfRange
           else
             let shp = shape (variableMetas ! 0) in
             bind_err (fusedStack_loop variableMetas shp) (\<lambda>_.
             Inr (take (nat dim) shp @ [int (length variableMetas)] @ drop (nat dim) shp)))"

subsection \<open>Embedding aggregation\<close>

text \<open>
  The member \<^verbatim>\<open>hasEndOffset_\<close> is passed to the two rules as a parameter;
  \<^verbatim>\<open>static_cast<int>\<close> of it is \<open>0\<close> or \<open>1\<close>.
\<close>

definition embeddingBag :: "bool \<Rightarrow> MetaStack \<Rightarrow> error + int list" where
  "embeddingBag hasEndOffset variableMetas =
     (if length variableMetas \<noteq> 8 then Inl (ExpectedEightInputs (length variableMetas))
      else if length (shape (variableMetas ! 1)) = 1 then
        (if \<not> length (shape (variableMetas ! 2)) = 1 then
           Inl (Expected1DOffset (length (shape (variableMetas ! 2))))
         else
           bind_err (vec_at (shape (variableMetas ! 2)) 0) (\<lambda>n.
           bind_err (vec_at (shape (variableMetas ! 0)) 1) (\<lambda>w.
           Inr [n - (if hasEndOffset then 1 else 0), w])))
      else if length (shape (variableMetas ! 1)) = 2 then
        bind_err (vec_at (shape (variableMetas ! 1)) 0) (\<lambda>n.
        bind_err (vec_at (shape (variableMetas ! 0)) 1) (\<lambda>w. Inr [n, w]))
      else Inl EmbeddingBagInputRank)"

definition embeddingBagByteRowwiseOffsets :: "bool \<Rightarrow> MetaStack \<Rightarrow> error + int list" where
  "embeddingBagByteRowwiseOffsets hasEndOffset variableMetas =
     (if length variableMetas \<noteq> 8 then Inl (ExpectedEightInputs (length variableMetas))
      else
        bind_err (vec_at (shape (variableMetas ! 2)) 0) (\<lambda>n.
        bind_err (vec_at (shape (variableMetas ! 0)) 1) (\<lambda>w.
        Inr [n - (if hasEndOffset then 1 else 0), w - 8])))"

section \<open>The graph and the engine\<close>

text \<open>
  The graph library is outside the repository; the engine uses the following of it.
  A value of the graph (\<^verbatim>\<open>torch::jit::Value*\<close>) is an identity, here a number.
  A node has its operator, its input and output values, the integer attributes
  \<^verbatim>\<open>dim\<close> and \<^verbatim>\<open>chunks\<close>, and for a constant the attribute \<^verbatim>\<open>value\<close>:
  \<open>attr_value_i\<close> is what \<^verbatim>\<open>node->i(attr::value)\<close> returns and \<open>attr_value_t\<close>
  the sizes of the tensor \<^verbatim>\<open>node->t(attr::value)\<close>. \<open>output_type\<close> is the type of
  \<^verbatim>\<open>node->output()\<close>; the five types that \<^verbatim>\<open>primConstant\<close> tests are pairwise
  unrelated by subtyping, so \<^verbatim>\<open>isSubtypeOf\<close> is equality on \<open>jit_type\<close>.
\<close>

type_synonym Value = nat

datatype jit_type = FloatType | IntType | BoolType | NoneType | TensorType | OtherType

datatype NodeKind =
    glow_fused_stack
  | fb_embedding_bag_byte_rowwise_offsets
  | prim_Constant
  | aten_tanh
  | aten_relu
  | aten_sigmoid
  | aten_sub
  | aten_pow
  | aten_mul
  | aten_add
  | aten_mm
  | aten_addmm
  | aten_bmm
  | prim_FusedConcat
  | prim_ConstantChunk
  | prim_ListConstruct
  | aten_slice
  | aten_reshape
  | aten_permute
  | aten_embedding_bag
  | other_kind string

record Node =
  kind :: NodeKind
  inputs :: "Value list"
  outputs :: "Value list"
  attr_dim :: int
  attr_chunks :: int
  attr_value_i :: int
  attr_value_t :: "int list"
  output_type :: jit_type

record Graph =
  graph_inputs :: "Value list"
  graph_nodes :: "Node list"
  graph_outputs :: "Value list"

text \<open>
  A concrete input (\<^verbatim>\<open>at::IValue\<close>): a tensor with its sizes, a boolean, an integer,
  an integer list, or anything else.
\<close>

datatype IValue =
    TensorIV "int list"
  | BoolIV bool
  | IntIV int
  | IntListIV "int list"
  | OtherIV

text \<open>
  Modelled from the spec: \<^verbatim>\<open>IValue::toInt\<close> belongs to the tensor library. The
  engine calls it on booleans and integers alike and stores the result as the value;
  a boolean gives \<open>0\<close> or \<open>1\<close>.
\<close>

fun toInt :: "IValue \<Rightarrow> int" where
  "toInt (IntIV n) = n"
| "toInt (BoolIV b) = (if b then 1 else 0)"
| "toInt _ = 0"

text \<open>
  The members of the class; \<open>graph_m\<close> is \<^verbatim>\<open>graph_\<close>, \<open>shapeMap_m\<close> is
  \<^verbatim>\<open>shapeMap_\<close>, and so on.
\<close>

record ShapeInferenceEngine =
  graph_m :: Graph
  inputs_m :: "IValue list"
  hasEndOffset_m :: bool
  shapeMap_m :: "Value \<rightharpoonup> VariableMeta"
  outputShape_m :: "int list list"

text \<open>
  \<^verbatim>\<open>shapeMap_[k].shape = v\<close> and \<^verbatim>\<open>shapeMap_[k].intValue = v\<close>:
  \<^verbatim>\<open>operator[]\<close> of the map inserts an entry with two empty vectors when \<open>k\<close> has
  none.
\<close>

definition set_shape :: "(Value \<rightharpoonup> VariableMeta) \<Rightarrow> Value \<Rightarrow> int list \<Rightarrow> (Value \<rightharpoonup> VariableMeta)" where
  "set_shape m k v =
     m(k \<mapsto> (case m k of None \<Rightarrow> \<lparr>shape = [], intValue = []\<rparr> | Some vm \<Rightarrow> vm)\<lparr>shape := v\<rparr>)"

definition set_intValue :: "(Value \<rightharpoonup> VariableMeta) \<Rightarrow> Value \<Rightarrow> int list \<Rightarrow> (Value \<rightharpoonup> VariableMeta)" where
  "set_intValue m k v =
     m(k \<mapsto> (case m k of None \<Rightarrow> \<lparr>shape = [], intValue = []\<rparr> | Some vm \<Rightarrow> vm)\<lparr>intValue := v\<rparr>)"

text \<open>\<^verbatim>\<open>node->output()\<close> and \<^verbatim>\<open>node->output(i)\<close>.\<close>

definition node_output :: "Node \<Rightarrow> error + Value" where
  "node_output node = (case outputs node of [v] \<Rightarrow> Inr v | _ \<Rightarrow> Inl AccessorFailed)"

definition output_at :: "Node \<Rightarrow> nat \<Rightarrow> error + Value" where
  "output_at node i = (if i < length (outputs node) then Inr (outputs node ! i) else Inl AccessorFailed)"

subsection \<open>Constants\<close>

definition primConstant :: "Node \<Rightarrow> error + int list" where
  "primConstant node =
     bind_err (node_output node) (\<lambda>_.
     let type = output_type node in
     if type = FloatType then Inr [1]
     else if type = IntType then Inr [attr_value_i node]
     else if type = BoolType then Inr [attr_value_i node]
     else if type = NoneType then Inr []
     else if type = TensorType then Inr (attr_value_t node)
     else Inr [])"

subsection \<open>One node\<close>

fun getNodeInputShape :: "(Value \<rightharpoonup> VariableMeta) \<Rightarrow> Value list \<Rightarrow> MetaStack \<Rightarrow> error + MetaStack" where
  "getNodeInputShape m [] inputMetas = Inr inputMetas"
| "getNodeInputShape m (input # rest) inputMetas =
     (case m input of
        None \<Rightarrow> Inl CheckFailed
      | Some vm \<Rightarrow> getNodeInputShape m rest (inputMetas @ [vm]))"

text \<open>
  The dispatch of \<^verbatim>\<open>shapeOnNode\<close> on the operator. The result is the vector
  \<^verbatim>\<open>outputShapesOrValues\<close>: it has one element, assigned by the rule, except for
  \<^verbatim>\<open>prim::ConstantChunk\<close>, whose rule replaces the whole vector.
\<close>

definition one_result :: "error + int list \<Rightarrow> error + int list list" where
  "one_result r = bind_err r (\<lambda>s. Inr [s])"

definition shapeOnNode_rule :: "bool \<Rightarrow> Node \<Rightarrow> MetaStack \<Rightarrow> error + int list list" where
  "shapeOnNode_rule hasEndOffset node inputMetas =
     (case kind node of
        glow_fused_stack \<Rightarrow> one_result (fusedStack inputMetas (attr_dim node))
      | fb_embedding_bag_byte_rowwise_offsets \<Rightarrow>
          one_result (embeddingBagByteRowwiseOffsets hasEndOffset inputMetas)
      | prim_Constant \<Rightarrow> one_result (primConstant node)
      | aten_tanh \<Rightarrow>
          (if \<not> length inputMetas = 1 then Inl ExpectedOneInputShape
           else Inr [shape (inputMetas ! 0)])
      | aten_relu \<Rightarrow>
          (if \<not> length inputMetas = 1 then Inl ExpectedOneInputShape
           else Inr [shape (inputMetas ! 0)])
      | aten_sigmoid \<Rightarrow>
          (if \<not> length inputMetas = 1 then Inl ExpectedOneInputShape
           else Inr [shape (inputMetas ! 0)])
      | aten_sub \<Rightarrow> one_result (binaryOp inputMetas)
      | aten_pow \<Rightarrow> one_result (binaryOp inputMetas)
      | aten_mul \<Rightarrow> one_result (binaryOp inputMetas)
      | aten_add \<Rightarrow> one_result (binaryOp inputMetas)
      | aten_mm \<Rightarrow> one_result (mm inputMetas)
      | aten_addmm \<Rightarrow> one_result (addmm inputMetas)
      | aten_bmm \<Rightarrow> one_result (bmm inputMetas)
      | prim_FusedConcat \<Rightarrow> one_result (fusedConcat inputMetas (attr_dim node))
      | prim_ConstantChunk \<Rightarrow> constantChunk inputMetas (attr_chunks node) (attr_dim node)
      | prim_ListConstruct \<Rightarrow> one_result (listConstruct inputMetas)
      | aten_slice \<Rightarrow> one_result (slice inputMetas)
      | aten_reshape \<Rightarrow> one_result (reshape inputMetas)
      | aten_permute \<Rightarrow> one_result (permute inputMetas)
      | aten_embedding_bag \<Rightarrow> one_result (embeddingBag hasEndOffset inputMetas)
      | other_kind s \<Rightarrow> Inl (UnsupportedOperator s))"

text \<open>The last branch of the store: output \<open>i\<close> receives \<^verbatim>\<open>outputShapesOrValues[i]\<close>.\<close>

fun store_outputs ::
  "Value list \<Rightarrow> nat \<Rightarrow> int list list \<Rightarrow> (Value \<rightharpoonup> VariableMeta) \<Rightarrow> error + (Value \<rightharpoonup> VariableMeta)" where
  "store_outputs [] i osv m = Inr m"
| "store_outputs (v # vs) i osv m =
     bind_err (vec_at osv (int i)) (\<lambda>r. store_outputs vs (Suc i) osv (set_shape m v r))"

definition shapeOnNode_store ::
  "Node \<Rightarrow> int list list \<Rightarrow> (Value \<rightharpoonup> VariableMeta) \<Rightarrow> error + (Value \<rightharpoonup> VariableMeta)" where
  "shapeOnNode_store node osv m =
     (if kind node = prim_Constant then
        bind_err (node_output node) (\<lambda>v.
        bind_err (vec_at osv 0) (\<lambda>r.
        if output_type node = TensorType then Inr (set_shape m v r)
        else Inr (set_intValue (set_shape m v [1]) v r)))
      else if kind node = prim_ListConstruct then
        bind_err (node_output node) (\<lambda>v.
        bind_err (vec_at osv 0) (\<lambda>r.
        Inr (set_intValue (set_shape m v [int (length r), 1]) v r)))
      else if kind node = aten_embedding_bag then
        bind_err (output_at node 0) (\<lambda>v.
        bind_err (vec_at osv 0) (\<lambda>r. Inr (set_shape m v r)))
      else store_outputs (outputs node) 0 osv m)"

text \<open>
  \<^verbatim>\<open>shapeOnNode\<close> returns the error, if any, and the engine. Nothing is written
  before the rule has succeeded, so an error of a rule leaves the engine as it was.
\<close>

definition shapeOnNode :: "Node \<Rightarrow> ShapeInferenceEngine \<Rightarrow> error option \<times> ShapeInferenceEngine" where
  "shapeOnNode node eng =
     (case bind_err (getNodeInputShape (shapeMap_m eng) (inputs node) []) (\<lambda>inputMetas.
           bind_err (shapeOnNode_rule (hasEndOffset_m eng) node inputMetas) (\<lambda>osv.
           shapeOnNode_store node osv (shapeMap_m eng))) of
        Inl e \<Rightarrow> (Some e, eng)
      | Inr m \<Rightarrow> (None, eng\<lparr>shapeMap_m := m\<rparr>))"

subsection \<open>The run\<close>

text \<open>
  \<^verbatim>\<open>getGraphIntputShape\<close>: the loop runs over the concrete inputs and reads the graph
  input of the same index. Both vectors of the entry are emptied first; the sizes of a
  tensor are then appended to the empty shape.
\<close>

fun getGraphIntputShape_loop ::
  "Value list \<Rightarrow> IValue list \<Rightarrow> (Value \<rightharpoonup> VariableMeta) \<Rightarrow> error option \<times> (Value \<rightharpoonup> VariableMeta)" where
  "getGraphIntputShape_loop gs [] m = (None, m)"
| "getGraphIntputShape_loop [] (input # rest) m = (Some VectorOutOfRange, m)"
| "getGraphIntputShape_loop (gInName # gs) (input # rest) m =
     (let m0 = set_intValue (set_shape m gInName []) gInName [] in
      case input of
        TensorIV sizes \<Rightarrow> getGraphIntputShape_loop gs rest (set_shape m0 gInName sizes)
      | BoolIV b \<Rightarrow>
          getGraphIntputShape_loop gs rest
            (set_intValue (set_shape m0 gInName [1]) gInName [toInt input])
      | IntIV n \<Rightarrow>
          getGraphIntputShape_loop gs rest
            (set_intValue (set_shape m0 gInName [1]) gInName [toInt input])
      | IntListIV ptIntList \<Rightarrow>
          getGraphIntputShape_loop gs rest
            (set_intValue (set_shape m0 gInName [int (length ptIntList), 1]) gInName ptIntList)
      | OtherIV \<Rightarrow> (Some InputTypeUnsupported, m0))"

definition getGraphIntputShape :: "ShapeInferenceEngine \<Rightarrow> error option \<times> ShapeInferenceEngine" where
  "getGraphIntputShape eng =
     (case getGraphIntputShape_loop (graph_inputs (graph_m eng)) (inputs_m eng) (shapeMap_m eng) of
        (r, m) \<Rightarrow> (r, eng\<lparr>shapeMap_m := m\<rparr>))"

text \<open>\<^verbatim>\<open>generateGraphOutputShape\<close>: a graph output without an entry fails the \<^verbatim>\<open>CHECK\<close>.\<close>

fun generateGraphOutputShape_loop ::
  "(Value \<rightharpoonup> VariableMeta) \<Rightarrow> Value list \<Rightarrow> int list list \<Rightarrow> error option \<times> int list list" where
  "generateGraphOutputShape_loop m [] out = (None, out)"
| "generateGraphOutputShape_loop m (v # vs) out =
     (case m v of
        None \<Rightarrow> (Some CheckFailed, out)
      | Some vm \<Rightarrow> generateGraphOutputShape_loop m vs (out @ [shape vm]))"

definition generateGraphOutputShape :: "ShapeInferenceEngine \<Rightarrow> error option \<times> ShapeInferenceEngine" where
  "generateGraphOutputShape eng =
     (case generateGraphOutputShape_loop (shapeMap_m eng) (graph_outputs (graph_m eng)) (outputShape_m eng) of
        (r, out) \<Rightarrow> (r, eng\<lparr>outputShape_m := out\<rparr>))"

text \<open>The loop of \<^verbatim>\<open>run\<close> over the nodes stops at the first error.\<close>

fun run_nodes :: "Node list \<Rightarrow> ShapeInferenceEngine \<Rightarrow> error option \<times> ShapeInferenceEngine" where
  "run_nodes [] eng = (None, eng)"
| "run_nodes (node # rest) eng =
     (case shapeOnNode node eng of
        (Some e, eng') \<Rightarrow> (Some e, eng')
      | (None, eng') \<Rightarrow> run_nodes rest eng')"

definition run :: "ShapeInferenceEngine \<Rightarrow> error option \<times> ShapeInferenceEngine" where
  "run eng =
     (if \<not> length (inputs_m eng) = length (graph_inputs (graph_m eng)) then
        (Some NumInputsMismatch, eng)
      else
        case getGraphIntputShape eng of
          (Some e, eng1) \<Rightarrow> (Some e, eng1)
        | (None, eng1) \<Rightarrow>
            (case run_nodes (graph_nodes (graph_m eng1)) eng1 of
               (Some e, eng2) \<Rightarrow> (Some e, eng2)
             | (None, eng2) \<Rightarrow> generateGraphOutputShape eng2))"

text \<open>The engine as the constructor leaves it: nothing stored, no output shapes.\<close>

definition new_engine :: "Graph \<Rightarrow> IValue list \<Rightarrow> bool \<Rightarrow> ShapeInferenceEngine" where
  "new_engine g ins h =
     \<lparr>graph_m = g, inputs_m = ins, hasEndOffset_m = h, shapeMap_m = Map.empty, outputShape_m = []\<rparr>"

section \<open>Definitions used in the statements\<close>

text \<open>
  The length of the sliced axis as the specification words it: \<open>L\<close> is the length of
  the axis before slicing.
\<close>

definition slice_axis_length_spec :: "int \<Rightarrow> int \<Rightarrow> int \<Rightarrow> int \<Rightarrow> int" where
  "slice_axis_length_spec L start end step =
     (if start \<ge> L \<or> end \<le> - L then 0
      else
        let start' = (if start \<le> - L then 0
                      else if - L < start \<and> start < 0 then start + L
                      else start);
            end' = (if end > L then L
                    else if - L < end \<and> end < 0 then end + L
                    else end)
        in if start' \<ge> end' then 0
           else (end' - start') sdiv step + (if (end' - start') smod step \<noteq> 0 then 1 else 0))"

text \<open>
  Right-aligned broadcasting as the specification words it, on the two shapes read
  from the trailing end: where one shape is exhausted or has size 1 the result takes
  the size of the other, and two sizes other than 1 must be equal.
\<close>

fun broadcast_rev :: "int list \<Rightarrow> int list \<Rightarrow> error + int list" where
  "broadcast_rev [] ys = Inr ys"
| "broadcast_rev (x # xs) [] = Inr (x # xs)"
| "broadcast_rev (x # xs) (y # ys) =
     (if x = 1 then bind_err (broadcast_rev xs ys) (\<lambda>r. Inr (y # r))
      else if y = 1 then bind_err (broadcast_rev xs ys) (\<lambda>r. Inr (x # r))
      else if x \<noteq> y then Inl (SizeMismatch x y)
      else bind_err (broadcast_rev xs ys) (\<lambda>r. Inr (y # r)))"

definition broadcast_spec :: "int list \<Rightarrow> int list \<Rightarrow> error + int list" where
  "broadcast_spec t0 t1 = bind_err (broadcast_rev (rev t0) (rev t1)) (\<lambda>r. Inr (rev r))"

text \<open>What the engine stores for the output of a constant, by the type of the output.\<close>

definition constant_meta :: "Node \<Rightarrow> VariableMeta" where
  "constant_meta node =
     (case output_type node of
        FloatType \<Rightarrow> \<lparr>shape = [1], intValue = [1]\<rparr>
      | IntType \<Rightarrow> \<lparr>shape = [1], intValue = [attr_value_i node]\<rparr>
      | BoolType \<Rightarrow> \<lparr>shape = [1], intValue = [attr_value_i node]\<rparr>
      | NoneType \<Rightarrow> \<lparr>shape = [1], intValue = []\<rparr>
      | TensorType \<Rightarrow> \<lparr>shape = attr_value_t node, intValue = []\<rparr>
      | OtherType \<Rightarrow> \<lparr>shape = [1], intValue = []\<rparr>)"

text \<open>Concrete nodes and graphs for the examples.\<close>

definition tensor_meta :: "int list \<Rightarrow> VariableMeta" where
  "tensor_meta s = \<lparr>shape = s, intValue = []\<rparr>"

definition scalar_meta :: "int \<Rightarrow> VariableMeta" where
  "scalar_meta n = \<lparr>shape = [1], intValue = [n]\<rparr>"

definition mk_node :: "NodeKind \<Rightarrow> Value list \<Rightarrow> Value list \<Rightarrow> Node" where
  "mk_node k ins outs =
     \<lparr>kind = k, inputs = ins, outputs = outs, attr_dim = 0, attr_chunks = 0,
      attr_value_i = 0, attr_value_t = [], output_type = OtherType\<rparr>"

definition none_constant :: Node where
  "none_constant = (mk_node prim_Constant [] [0])\<lparr>output_type := NoneType\<rparr>"

definition float_constant :: Node where
  "float_constant = (mk_node prim_Constant [] [0])\<lparr>output_type := FloatType\<rparr>"

definition embedding_inputs :: "int list \<Rightarrow> int list \<Rightarrow> MetaStack" where
  "embedding_inputs indices offsets =
     [tensor_meta [10, 16], tensor_meta indices, tensor_meta offsets,
      scalar_meta 0, scalar_meta 0, scalar_meta 0, tensor_meta [], scalar_meta 1]"

definition list_of_tensor_graph :: Graph where
  "list_of_tensor_graph =
     \<lparr>graph_inputs = [0], graph_nodes = [mk_node prim_ListConstruct [0] [1]], graph_outputs = [1]\<rparr>"

text \<open>
  Shapes and stores without a negative dimension, and the condition on a node and its
  input metadata under which its rule returns no negative dimension: the literal of a
  tensor constant has no negative size; for a constant chunking the number of chunks
  is below \<open>2^31\<close> (the loop counter is an \<^verbatim>\<open>int\<close>), the sum
  \<^verbatim>\<open>shape[dim] + chunks - 1\<close> stays below \<open>2^63\<close> and the last piece is not
  negative; the sizes that a fused concatenation adds up along its dimension have a
  sum below \<open>2^63\<close>; the step of a slice is positive; the explicit entries of a reshape
  target are not negative, and the product of the input dimensions and the product of
  the explicit target entries are below \<open>2^63\<close>; the offsets of an embedding
  aggregation are at least as many as the end-offset adjustment, and a row of the
  row-wise quantized weight has at least the 8 bytes of scale and bias. Under these
  bounds no 64-bit operation of the rules wraps around on non-negative 64-bit
  dimensions.
\<close>

definition nonneg_shape :: "int list \<Rightarrow> bool" where
  "nonneg_shape s = (\<forall>d \<in> set s. 0 \<le> d)"





section \<open>Auxiliary lemmas\<close>

lemma bind_err_Inr [simp]: "bind_err (Inr v) f = f v"
  by (simp add: bind_err_def)

lemma bind_err_Inl [simp]: "bind_err (Inl e) f = Inl e"
  by (simp add: bind_err_def)

lemma wrap64_signed_take_bit: "wrap64 x = signed_take_bit 63 x"
  by (simp add: wrap64_def signed_take_bit_eq_take_bit_shift take_bit_eq_mod)


lemma wrap64_idem [simp]: "wrap64 (wrap64 x) = wrap64 x"
  by (simp add: wrap64_signed_take_bit)

lemma wrap64_mult_left [simp]: "wrap64 (wrap64 a * b) = wrap64 (a * b)"
  using signed_take_bit_mult [of 63 "signed_take_bit 63 a" b] signed_take_bit_mult [of 63 a b]
  by (simp add: wrap64_signed_take_bit)

lemma wrap64_one [simp]: "wrap64 1 = 1"
  by (simp add: wrap64_def)


lemma getNodeInputShape_dom:
  "set ins \<subseteq> dom m \<Longrightarrow> getNodeInputShape m ins acc = Inr (acc @ map (\<lambda>v. the (m v)) ins)"
  by (induction ins arbitrary: acc) auto

lemma getNodeInputShape_undef:
  "\<not> set ins \<subseteq> dom m \<Longrightarrow> getNodeInputShape m ins acc = Inl CheckFailed"
  by (induction ins arbitrary: acc) (auto split: option.splits)


lemma slice_tail:
  assumes "0 \<le> dim" "dim < int (length shp)" "step \<noteq> 0"
  shows "(if A then vec_set shp dim 0
      else if (s' :: int) \<ge> e' then vec_set shp dim 0
      else if step = 0 then Inl DivisionByZero
      else bind_err (vec_set shp dim ((e' - s') sdiv step)) (\<lambda>shp'.
             if (e' - s') smod step \<noteq> 0 then
               bind_err (vec_at shp' dim) (\<lambda>q. vec_set shp' dim (q + 1))
             else Inr shp'))
    = Inr (shp[nat dim := (if A then 0 else if s' \<ge> e' then 0
             else (e' - s') sdiv step + (if (e' - s') smod step \<noteq> 0 then 1 else 0))])"
  using assms by (simp add: vec_set_def vec_at_def)

lemma slice_carriers:
  assumes "length (shape d) = 1" "length (shape s) = 1" "length (shape e) = 1" "length (shape st) = 1"
    and "intValue d = dim # r1" "intValue s = start # r2" "intValue e = end # r3" "intValue st = step # r4"
    and "0 \<le> dim" "dim < int (length (shape self))" "step \<noteq> 0"
  shows "slice [self, d, s, e, st] =
     Inr ((shape self)[nat dim := slice_axis_length_spec (shape self ! nat dim) start end step])"
proof -
  define L where "L = shape self ! nat dim"
  have code: "slice [self, d, s, e, st] =
     (if start \<ge> L \<or> end \<le> - L then vec_set (shape self) dim 0
      else
          let start' = (if start \<le> - L then 0
                        else if start > - L \<and> start < 0 then start + L
                        else start);
              end' = (if end > L then L
                      else if end > - L \<and> end < 0 then end + L
                      else end)
          in if start' \<ge> end' then vec_set (shape self) dim 0
             else if step = 0 then Inl DivisionByZero
             else
               bind_err (vec_set (shape self) dim ((end' - start') sdiv step)) (\<lambda>shp'.
               if (end' - start') smod step \<noteq> 0 then
                 bind_err (vec_at shp' dim) (\<lambda>q. vec_set shp' dim (q + 1))
               else Inr shp'))"
    unfolding slice_def Let_def L_def nth_Cons_0
    using assms(1-10)
    by (simp add: vec_at_def split del: if_split)
  show ?thesis
    unfolding code slice_axis_length_spec_def Let_def L_def
    using assms(9-11) by (rule slice_tail)
qed









lemma shapeOnNode_outputShape: "outputShape_m (snd (shapeOnNode node eng)) = outputShape_m eng"
  by (simp add: shapeOnNode_def split: sum.splits)

lemma shapeOnNode_graph: "graph_m (snd (shapeOnNode node eng)) = graph_m eng"
  by (simp add: shapeOnNode_def split: sum.splits)

lemma run_nodes_outputShape: "outputShape_m (snd (run_nodes nodes eng)) = outputShape_m eng"
proof (induction nodes arbitrary: eng)
  case Nil then show ?case by simp
next
  case (Cons n ns)
  show ?case
    using shapeOnNode_outputShape [of n eng] Cons.IH [of "snd (shapeOnNode n eng)"]
    by (cases "shapeOnNode n eng") (auto split: option.splits)
qed

lemma run_nodes_first_failure:
  "run_nodes pre eng = (None, eng1) \<Longrightarrow> shapeOnNode node eng1 = (Some e, eng2) \<Longrightarrow>
   run_nodes (pre @ node # post) eng = (Some e, eng2)"
proof (induction pre arbitrary: eng)
  case Nil then show ?case by simp
next
  case (Cons n ns)
  then show ?case
    by (cases "shapeOnNode n eng") (auto split: option.splits)
qed

lemma getGraphIntputShape_outputShape:
  "outputShape_m (snd (getGraphIntputShape eng)) = outputShape_m eng"
  by (simp add: getGraphIntputShape_def split: prod.splits)

lemma getGraphIntputShape_graph:
  "graph_m (snd (getGraphIntputShape eng)) = graph_m eng"
  by (simp add: getGraphIntputShape_def split: prod.splits)

lemma getGraphIntputShape_loop_unsupported:
  "length gs = length ins \<Longrightarrow> OtherIV \<in> set ins \<Longrightarrow>
   fst (getGraphIntputShape_loop gs ins m) = Some InputTypeUnsupported"
proof (induction gs ins m rule: getGraphIntputShape_loop.induct)
  case (3 gInName gs input rest m)
  then show ?case by (cases input) (auto simp add: Let_def)
qed simp_all







lemma nonneg_replicate [simp]: "nonneg_shape (replicate n 0)"
  by (simp add: nonneg_shape_def)


lemma nonneg_nth: "nonneg_shape xs \<Longrightarrow> n < length xs \<Longrightarrow> 0 \<le> xs ! n"
  by (simp add: nonneg_shape_def)






































text \<open>
  The elementwise-binary rule is right-aligned broadcasting whenever the second shape
  is not of length 1 and the first shape has no size 1 at a position that the second
  shape does not reach.
\<close>

lemma broadcast_rev_Nil2 [simp]: "broadcast_rev xs [] = Inr xs"
  by (cases xs) auto

lemma bind_err_assoc: "bind_err (bind_err m f) g = bind_err m (\<lambda>x. bind_err (f x) g)"
  by (cases m) auto

lemma vec_at_rev:
  "vec_at t (int (length t) + (- 1 - int i)) =
     (if i < length t then Inr (rev t ! i) else Inl VectorOutOfRange)"
proof (cases "i < length t")
  case True
  then have "nat (int (length t) + (- 1 - int i)) = length t - Suc i" by linarith
  with True show ?thesis by (simp add: vec_at_def rev_nth)
next
  case False
  then show ?thesis by (simp add: vec_at_def)
qed

lemma vec_set_rev:
  assumes "i < length shp"
  shows "vec_set shp (int (length shp) + (- 1 - int i)) v = Inr (rev ((rev shp)[i := v]))"
proof -
  have n: "nat (int (length shp) + (- 1 - int i)) = length shp - Suc i"
    using assms by linarith
  have "rev ((rev shp)[i := v]) = shp[length shp - Suc i := v]"
    using assms by (simp add: rev_update)
  with assms n show ?thesis by (simp add: vec_set_def)
qed

lemma binaryOp_step_rev:
  assumes "i < length shp"
  shows "binaryOp_step t0 t1 (length shp) i shp =
     (if i \<ge> length t0 \<or> rev t0 ! i = 1 then
        (if i < length t1 then Inr (rev ((rev shp)[i := rev t1 ! i])) else Inl VectorOutOfRange)
      else if i \<ge> length t1 \<or> rev t1 ! i = 1 then Inr (rev ((rev shp)[i := rev t0 ! i]))
      else if rev t1 ! i \<noteq> rev t0 ! i then Inl (SizeMismatch (rev t0 ! i) (rev t1 ! i))
      else Inr (rev ((rev shp)[i := rev t1 ! i])))"
  using assms
  by (simp add: binaryOp_step_def Let_def vec_at_rev vec_set_rev)

lemma take_Suc_update: "i < length xs \<Longrightarrow> take (Suc i) (xs[i := v]) = take i xs @ [v]"
  by (simp add: take_Suc_conv_app_nth)


lemma binaryOp_loop_broadcast:
  assumes len: "length shp = max (length t0) (length t1)" and le: "i \<le> length shp"
    and u: "\<forall>k. length t1 \<le> k \<and> k < length t0 \<longrightarrow> rev t0 ! k \<noteq> 1"
  shows "binaryOp_loop t0 t1 (length shp) i shp =
     bind_err (broadcast_rev (drop i (rev t0)) (drop i (rev t1)))
       (\<lambda>r. Inr (rev (take i (rev shp) @ r)))"
  using len le
proof (induction "length shp - i" arbitrary: i shp)
  case 0
  then have i: "i = length shp" by linarith
  then have "drop i (rev t0) = []" "drop i (rev t1) = []" using "0.prems"(1) by simp_all
  then show ?case using i by (subst binaryOp_loop.simps) simp
next
  case (Suc n)
  then have lt: "i < length shp" by linarith
  define a where "a = rev t0"
  define b where "b = rev t1"
  have next_step: "binaryOp_loop t0 t1 (length shp) (Suc i) (rev ((rev shp)[i := v])) =
      bind_err (broadcast_rev (drop (Suc i) a) (drop (Suc i) b))
        (\<lambda>r. Inr (rev (take i (rev shp) @ v # r)))" for v
  proof -
    let ?shp' = "rev ((rev shp)[i := v])"
    have l: "length ?shp' = length shp" by simp
    have "binaryOp_loop t0 t1 (length ?shp') (Suc i) ?shp' =
      bind_err (broadcast_rev (drop (Suc i) (rev t0)) (drop (Suc i) (rev t1)))
        (\<lambda>r. Inr (rev (take (Suc i) (rev ?shp') @ r)))"
      using Suc.hyps(2) Suc.prems lt by (intro Suc.hyps(1)) simp_all
    then show ?thesis using lt by (simp add: a_def b_def take_Suc_update)
  qed
  have loop: "binaryOp_loop t0 t1 (length shp) i shp =
      (case binaryOp_step t0 t1 (length shp) i shp of
         Inl e \<Rightarrow> Inl e
       | Inr shp' \<Rightarrow> binaryOp_loop t0 t1 (length shp) (Suc i) shp')"
    using lt by (subst binaryOp_loop.simps) simp
  consider (both) "i < length t0" "i < length t1"
    | (first) "i < length t0" "length t1 \<le> i"
    | (second) "length t0 \<le> i" "i < length t1"
    using lt Suc.prems(1) by linarith
  then show ?case
  proof cases
    case both
    have da: "drop i a = a ! i # drop (Suc i) a" and db: "drop i b = b ! i # drop (Suc i) b"
      using both by (simp_all add: a_def b_def Cons_nth_drop_Suc)
    show ?thesis
      unfolding loop binaryOp_step_rev [OF lt] a_def [symmetric] b_def [symmetric] da db
      using both by (simp add: next_step bind_err_assoc)
  next
    case first
    have da: "drop i a = a ! i # drop (Suc i) a" and db: "drop i b = []" "drop (Suc i) b = []"
      using first by (simp_all add: a_def b_def Cons_nth_drop_Suc)
    have "a ! i \<noteq> 1" using u first by (simp add: a_def)
    then show ?thesis
      unfolding loop binaryOp_step_rev [OF lt] a_def [symmetric] b_def [symmetric] da
      using first by (simp add: next_step db)
  next
    case second
    have da: "drop i a = []" "drop (Suc i) a = []" and db: "drop i b = b ! i # drop (Suc i) b"
      using second by (simp_all add: a_def b_def Cons_nth_drop_Suc)
    show ?thesis
      unfolding loop binaryOp_step_rev [OF lt] a_def [symmetric] b_def [symmetric] db
      using second by (simp add: next_step da)
  qed
qed

lemma binaryOp_broadcast:
  assumes "length (shape m1) \<noteq> 1"
    and "\<forall>k. k < length (shape m0) - length (shape m1) \<longrightarrow> shape m0 ! k \<noteq> 1"
  shows "binaryOp [m0, m1] = broadcast_spec (shape m0) (shape m1)"
proof -
  let ?t0 = "shape m0" and ?t1 = "shape m1"
  let ?dim = "max (length ?t0) (length ?t1)"
  have u: "\<forall>k. length ?t1 \<le> k \<and> k < length ?t0 \<longrightarrow> rev ?t0 ! k \<noteq> 1"
  proof (intro allI impI)
    fix k assume k: "length ?t1 \<le> k \<and> k < length ?t0"
    then have "length ?t0 - Suc k < length ?t0 - length ?t1" by linarith
    with assms(2) have "?t0 ! (length ?t0 - Suc k) \<noteq> 1" by blast
    with k show "rev ?t0 ! k \<noteq> 1" by (simp add: rev_nth)
  qed
  have "binaryOp_loop ?t0 ?t1 (length (replicate ?dim (0::int))) 0 (replicate ?dim 0) =
      bind_err (broadcast_rev (drop 0 (rev ?t0)) (drop 0 (rev ?t1)))
        (\<lambda>r. Inr (rev (take 0 (rev (replicate ?dim 0)) @ r)))"
    using u by (intro binaryOp_loop_broadcast) simp_all
  then show ?thesis
    using assms(1) by (simp add: binaryOp_def Let_def broadcast_spec_def)
qed

text \<open>
  \<^verbatim>\<open>addmm\<close> is the elementwise-binary rule applied to the bias and the shape of the
  product.
\<close>

lemma addmm_eq:
  assumes "length ms \<ge> 3"
  shows "addmm ms =
    (if length (shape (ms ! 2)) = 1 then binaryOp [ms ! 0, tensor_meta (shape (ms ! 1))]
     else if length (shape (ms ! 1)) = 2 \<and> length (shape (ms ! 2)) = 2 then
       (if shape (ms ! 1) ! 1 = shape (ms ! 2) ! 0 then
          binaryOp [ms ! 0, tensor_meta [shape (ms ! 1) ! 0, shape (ms ! 2) ! 1]]
        else Inl (MmSizeMismatch (shape (ms ! 1) ! 1) (shape (ms ! 2) ! 0)))
     else Inl Expected2D)"
proof -
  have "binaryOp [ms ! 0, ms ! 1] = binaryOp [ms ! 0, tensor_meta (shape (ms ! 1))]"
    by (simp add: binaryOp_def tensor_meta_def)
  then show ?thesis using assms
    by (simp add: addmm_def mm_def vec_at_def Let_def tensor_meta_def)
qed

section \<open>Properties\<close>

subsection \<open>Elementwise binary operators\<close>

text \<open>
  C1. The claim asks for right-aligned broadcasting: where one operand has no dimension
  left, or has size 1, the result takes the size of the other operand. For the shapes
  \<open>[1, 3, 4]\<close> and \<open>[3, 4]\<close> the leading dimension of the result would be \<open>1\<close>. The
  source tests \<^verbatim>\<open>i >= d0 || t0[d0 + j] == 1\<close> first and then reads
  \<^verbatim>\<open>t1[d1 + j]\<close> without testing \<^verbatim>\<open>i >= d1\<close>: for these shapes, at \<open>i = 2\<close>
  the index \<open>d1 + j\<close> is \<open>-1\<close> and the read is outside the vector, so no shape is
  produced. The two examples of the claim come out as it says, and away from a size 1
  of the first operand beyond the rank of the second the rule is the broadcasting of
  the claim (lemma \<open>binaryOp_broadcast\<close>).
\<close>

theorem binaryOp_reads_exhausted_operand:
  "binaryOp [tensor_meta [1, 3, 4], tensor_meta [3, 4]] = Inl VectorOutOfRange \<and>
   binaryOp [tensor_meta [2, 1, 4], tensor_meta [3, 4]] = Inr [2, 3, 4] \<and>
   binaryOp [tensor_meta [2, 3], tensor_meta [2, 4]] = Inl (SizeMismatch 3 4)"
  by (simp add: tensor_meta_def binaryOp_def binaryOp_loop.simps binaryOp_step_def
      vec_at_def vec_set_def)

subsection \<open>Slice\<close>

text \<open>
  C2, as the source has it. For a slice node with the five inputs self, dim, start, end and step, the last
  four scalar carriers (shape of length 1 and a stored value), with
  \<open>0 \<le> dim < rank self\<close> and a step other than \<open>0\<close>: the result is the shape of self
  with the entry at \<open>dim\<close> replaced by the axis length of the specification, which is
  \<open>0\<close> if \<open>start \<ge> L\<close> or \<open>end \<le> -L\<close>, and otherwise, after start and end have been
  clamped or shifted by \<open>L\<close>, is \<open>0\<close> if \<open>start \<ge> end\<close> and else the truncating
  quotient \<open>(end - start) / step\<close> plus one if there is a remainder.
\<close>

theorem slice_axis_length:
  assumes carriers: "\<forall>c \<in> {d, s, e, st}. length (shape c) = 1 \<and> intValue c \<noteq> []"
    and dim: "0 \<le> hd (intValue d)" "hd (intValue d) < int (length (shape self))"
    and step: "hd (intValue st) \<noteq> 0"
  shows "slice [self, d, s, e, st] =
     Inr ((shape self)[nat (hd (intValue d)) :=
        slice_axis_length_spec (shape self ! nat (hd (intValue d)))
          (hd (intValue s)) (hd (intValue e)) (hd (intValue st))])"
proof -
  have v: "intValue c = hd (intValue c) # tl (intValue c)" if "c \<in> {d, s, e, st}" for c
    using carriers that by auto
  have sh: "length (shape d) = 1" "length (shape s) = 1" "length (shape e) = 1"
    "length (shape st) = 1"
    using carriers by auto
  show ?thesis
    by (rule slice_carriers [OF sh v v v v dim step]) simp_all
qed

theorem slice_axis_length_witness:
  "slice [tensor_meta [10], scalar_meta 0, scalar_meta (- 12), scalar_meta 100, scalar_meta 1]
     = Inr [10]"
  using slice_axis_length [of "scalar_meta 0" "scalar_meta (- 12)" "scalar_meta 100"
      "scalar_meta 1" "tensor_meta [10]"]
  by (simp add: tensor_meta_def scalar_meta_def slice_axis_length_spec_def
      signed_divide_int_def signed_modulo_int_def)

text \<open>
  The claim as written covers every step. With step \<open>0\<close> and \<open>start < end\<close> the
  source computes \<^verbatim>\<open>(end - start) / step\<close>, a division by zero, and returns no
  shape.
\<close>

theorem slice_step_zero_counterexample:
  "slice [tensor_meta [10], scalar_meta 0, scalar_meta 0, scalar_meta 5, scalar_meta 0]
     = Inl DivisionByZero"
  by (simp add: slice_def tensor_meta_def scalar_meta_def vec_at_def)

subsection \<open>Constant chunking\<close>




subsection \<open>Fused multiply-add\<close>

text \<open>
  C5. The claim asks for the broadcast of the bias against the shape of the product.
  \<^verbatim>\<open>addmm\<close> takes the shape of the product as the claim says, the shape of mat1
  when the third shape has length 1 and else the shape that \<^verbatim>\<open>mm\<close> computes,
  whose failures it passes on (lemma \<open>addmm_eq\<close>), and hands the bias and that shape
  to \<^verbatim>\<open>binaryOp\<close>. For a bias of sizes \<open>[1, 2, 4]\<close> and matrices of sizes
  \<open>[2, 3]\<close> and \<open>[3, 4]\<close> the shape of the product is \<open>[2, 4]\<close> and the broadcast of
  the claim is \<open>[1, 2, 4]\<close>. \<^verbatim>\<open>binaryOp\<close> finds size 1 in the leading dimension of
  the bias and reads the shape of the product at index \<open>-1\<close>, outside the vector (the
  read of C1, \<^verbatim>\<open>shape[dim + j] = t1[d1 + j]\<close>), so no shape is produced. For a bias
  of sizes \<open>[4]\<close> the rule returns the broadcast \<open>[2, 4]\<close>.
\<close>

theorem addmm_reads_exhausted_product:
  "addmm [tensor_meta [1, 2, 4], tensor_meta [2, 3], tensor_meta [3, 4]] = Inl VectorOutOfRange \<and>
   mm [tensor_meta [2, 3], tensor_meta [3, 4]] = Inr [2, 4] \<and>
   broadcast_spec [1, 2, 4] [2, 4] = Inr [1, 2, 4] \<and>
   addmm [tensor_meta [4], tensor_meta [2, 3], tensor_meta [3, 4]] = Inr [2, 4] \<and>
   broadcast_spec [4] [2, 4] = Inr [2, 4]"
  by (simp add: addmm_def mm_def tensor_meta_def binaryOp_def binaryOp_loop.simps
      binaryOp_step_def vec_at_def vec_set_def broadcast_spec_def Let_def)

subsection \<open>Reshape\<close>

text \<open>
  C3. The claim asks, for a target with at most one \<open>-1\<close>, for the invalid-size error
  when \<open>S1\<close> does not divide \<open>S0\<close> and for the target list otherwise. Reshaping a
  tensor of sizes \<open>[0]\<close> to \<open>[0]\<close>, or one of sizes \<open>[0, 4]\<close> to \<open>[0, 2, 2]\<close>, has
  \<open>S0 = 0\<close> and \<open>S1 = 0\<close>, so the claim asks for the target list. The source
  evaluates \<^verbatim>\<open>s0 % s1 == 0\<close> without testing \<open>s1\<close>: the remainder is taken by
  zero and no shape is produced. The same happens when the 64-bit product \<open>s1\<close>
  wraps around to \<open>0\<close>, as for the target \<open>[2^32, 2^32]\<close>, where the claim asks for
  the invalid-size error. The example of the claim comes out as it says, and while
  \<open>S1\<close> is not \<open>0\<close> and both products stay within 64 bits the rule is the one of the
  claim (lemma \<open>reshape_eq\<close>).
\<close>

theorem reshape_zero_target_divides_by_zero:
  "reshape [tensor_meta [0], \<lparr>shape = [1, 1], intValue = [0]\<rparr>] = Inl DivisionByZero \<and>
   reshape [tensor_meta [0, 4], \<lparr>shape = [3, 1], intValue = [0, 2, 2]\<rparr>] = Inl DivisionByZero \<and>
   reshape [tensor_meta [6], \<lparr>shape = [2, 1], intValue = [2 ^ 32, 2 ^ 32]\<rparr>] = Inl DivisionByZero \<and>
   reshape [tensor_meta [2, 3, 4], \<lparr>shape = [2, 1], intValue = [- 1, 4]\<rparr>] = Inr [6, 4]"
  by (simp add: reshape_def tensor_meta_def wrap64_def vec_set_def signed_divide_int_def
      signed_modulo_int_def)

subsection \<open>Embedding aggregation\<close>

text \<open>
  C6, as the source has it. Both embedding rules fail unless there are exactly 8
  inputs (weight, indices, offsets and five more). With 8 inputs, the rule of
  \<^verbatim>\<open>aten::embedding_bag\<close> fails if the indices have rank 1 and the offsets do not,
  and fails if the indices have a rank other than 1 and 2. For a weight of rank at
  least 2: with indices and offsets of rank 1 the result is
  \<open>[offsets.dim0 - endOffsetAdjustment, weight.dim1]\<close>, with indices of rank 2 it is
  \<open>[indices.dim0, weight.dim1]\<close>, and the row-wise quantized rule gives, for offsets of
  rank at least 1, \<open>[offsets.dim0 - endOffsetAdjustment, weight.dim1 - 8]\<close>. Of the
  outputs of an \<^verbatim>\<open>aten::embedding_bag\<close> node only the first receives the shape.
\<close>

theorem embeddingBag_shape:
  "(length ms \<noteq> 8 \<longrightarrow>
      embeddingBag h ms = Inl (ExpectedEightInputs (length ms)) \<and>
      embeddingBagByteRowwiseOffsets h ms = Inl (ExpectedEightInputs (length ms))) \<and>
   (length ms = 8 \<longrightarrow>
      (length (shape (ms ! 1)) = 1 \<and> length (shape (ms ! 2)) \<noteq> 1 \<longrightarrow>
         embeddingBag h ms = Inl (Expected1DOffset (length (shape (ms ! 2))))) \<and>
      (length (shape (ms ! 1)) \<noteq> 1 \<and> length (shape (ms ! 1)) \<noteq> 2 \<longrightarrow>
         embeddingBag h ms = Inl EmbeddingBagInputRank) \<and>
      (2 \<le> length (shape (ms ! 0)) \<longrightarrow>
         (length (shape (ms ! 1)) = 1 \<and> length (shape (ms ! 2)) = 1 \<longrightarrow>
            embeddingBag h ms =
              Inr [shape (ms ! 2) ! 0 - (if h then 1 else 0), shape (ms ! 0) ! 1]) \<and>
         (length (shape (ms ! 1)) = 2 \<longrightarrow>
            embeddingBag h ms = Inr [shape (ms ! 1) ! 0, shape (ms ! 0) ! 1]) \<and>
         (1 \<le> length (shape (ms ! 2)) \<longrightarrow>
            embeddingBagByteRowwiseOffsets h ms =
              Inr [shape (ms ! 2) ! 0 - (if h then 1 else 0), shape (ms ! 0) ! 1 - 8]))) \<and>
   (kind node = aten_embedding_bag \<and> outputs node \<noteq> [] \<longrightarrow>
      shapeOnNode_store node [s] m = Inr (set_shape m (outputs node ! 0) s))"
  by (simp add: embeddingBag_def embeddingBagByteRowwiseOffsets_def vec_at_def
      shapeOnNode_store_def output_at_def)

theorem embeddingBag_shape_witness:
  "embeddingBag True (embedding_inputs [5] [4]) = Inr [3, 16] \<and>
   embeddingBag False (embedding_inputs [5, 2] [4]) = Inr [5, 16] \<and>
   embeddingBag True (embedding_inputs [5] [4, 1]) = Inl (Expected1DOffset 2) \<and>
   embeddingBag True (embedding_inputs [] [4]) = Inl EmbeddingBagInputRank \<and>
   embeddingBagByteRowwiseOffsets True (embedding_inputs [5] [4]) = Inr [3, 8] \<and>
   embeddingBag True [] = Inl (ExpectedEightInputs 0)"
  using embeddingBag_shape [of "embedding_inputs [5] [4]" True]
    embeddingBag_shape [of "embedding_inputs [5, 2] [4]" False]
    embeddingBag_shape [of "embedding_inputs [5] [4, 1]" True]
    embeddingBag_shape [of "embedding_inputs [] [4]" True]
    embeddingBag_shape [of "[]" True]
  by (simp add: embedding_inputs_def tensor_meta_def scalar_meta_def)

text \<open>
  The claim as written gives the result \<open>[offsets.dim0 - endOffsetAdjustment,
  weight.dim1]\<close> for every node whose indices have rank 1. With offsets of rank 2 the
  rule fails instead.
\<close>

theorem embeddingBag_offsets_rank_counterexample:
  "embeddingBag False (embedding_inputs [5] [4, 1]) \<noteq> Inr [4 - 0, 16]"
  by (simp add: embeddingBag_def embedding_inputs_def tensor_meta_def scalar_meta_def)

subsection \<open>Constants\<close>

text \<open>
  C7, as the source has it. For a constant node with the single output \<open>v\<close>, not yet
  in the store, the run of the node succeeds and stores for \<open>v\<close>: for a float type
  shape \<open>[1]\<close> and value \<open>1\<close>; for an integer or boolean type shape \<open>[1]\<close> and the
  literal as value; for the none type shape \<open>[1]\<close> and no value; for a tensor type
  the sizes of the literal tensor as shape and no value.
\<close>

theorem primConstant_stored:
  assumes "kind node = prim_Constant" and "outputs node = [v]"
    and "set (inputs node) \<subseteq> dom (shapeMap_m eng)" and "shapeMap_m eng v = None"
  shows "shapeOnNode node eng =
     (None, eng\<lparr>shapeMap_m := (shapeMap_m eng)(v \<mapsto> constant_meta node)\<rparr>)"
  using assms
  by (cases "output_type node")
     (simp_all add: shapeOnNode_def getNodeInputShape_dom shapeOnNode_rule_def one_result_def
      primConstant_def node_output_def shapeOnNode_store_def vec_at_def
      set_shape_def set_intValue_def constant_meta_def)

theorem primConstant_stored_witness:
  "shapeMap_m (snd (shapeOnNode float_constant (new_engine list_of_tensor_graph [] False))) 0
     = Some \<lparr>shape = [1], intValue = [1]\<rparr>"
  using primConstant_stored [of float_constant 0 "new_engine list_of_tensor_graph [] False"]
  by (simp add: float_constant_def mk_node_def new_engine_def constant_meta_def)

text \<open>
  The claim as written has an empty shape stored for a constant of the none type. The
  rule returns the empty vector, and \<^verbatim>\<open>shapeOnNode\<close> stores it as the value under
  the shape \<open>[1]\<close>, as for every constant that is not a tensor.
\<close>

theorem primConstant_none_counterexample:
  "map_option shape
     (shapeMap_m (snd (shapeOnNode none_constant (new_engine list_of_tensor_graph [] False))) 0)
     = Some [1]"
  by (simp add: none_constant_def mk_node_def new_engine_def shapeOnNode_def
      shapeOnNode_rule_def one_result_def primConstant_def node_output_def
      shapeOnNode_store_def vec_at_def set_shape_def set_intValue_def)

subsection \<open>Reading the value of a one-element tensor\<close>

text \<open>
  C10. The claim asks that an entry accepted by the list-construction rule (shape of
  length 1) has a value to read. A graph input bound to a tensor of sizes \<open>[1]\<close> is
  stored with shape \<open>[1]\<close> and no value; the rule accepts it and then reads
  \<^verbatim>\<open>intValue[0]\<close> of the empty vector. The run of the graph with this input and a
  single list-construction node on it ends in that read.
\<close>

theorem listConstruct_reads_empty_intValue:
  "fst (run (new_engine list_of_tensor_graph [TensorIV [1]] False)) = Some VectorOutOfRange"
  by (simp add: run_def new_engine_def list_of_tensor_graph_def mk_node_def
      getGraphIntputShape_def set_shape_def set_intValue_def shapeOnNode_def
      shapeOnNode_rule_def one_result_def listConstruct_def vec_at_def)

subsection \<open>Failures of a run\<close>

text \<open>
  C8. A run fails with the cardinality error when the number of concrete inputs
  differs from the number of graph inputs. With equal numbers it fails with the
  unsupported-input-type error when some concrete input is neither a tensor, a
  boolean, an integer nor an integer list. When the inputs have been bound and the
  nodes before \<open>node\<close> have succeeded, an error of \<open>node\<close> is the error of the run. In
  the last two cases the sequence of graph-output shapes is what it was before the
  run: empty for a fresh engine.
\<close>

theorem run_failures:
  "(length (inputs_m eng) \<noteq> length (graph_inputs (graph_m eng)) \<longrightarrow>
      run eng = (Some NumInputsMismatch, eng)) \<and>
   (length (inputs_m eng) = length (graph_inputs (graph_m eng)) \<and> OtherIV \<in> set (inputs_m eng) \<longrightarrow>
      fst (run eng) = Some InputTypeUnsupported \<and>
      outputShape_m (snd (run eng)) = outputShape_m eng) \<and>
   (length (inputs_m eng) = length (graph_inputs (graph_m eng)) \<and>
    getGraphIntputShape eng = (None, eng1) \<and>
    graph_nodes (graph_m eng) = pre @ node # post \<and>
    run_nodes pre eng1 = (None, eng2) \<and>
    shapeOnNode node eng2 = (Some e, eng3) \<longrightarrow>
      fst (run eng) = Some e \<and> outputShape_m (snd (run eng)) = outputShape_m eng)"
proof (intro conjI impI)
  assume "length (inputs_m eng) \<noteq> length (graph_inputs (graph_m eng))"
  then show "run eng = (Some NumInputsMismatch, eng)" by (simp add: run_def)
next
  assume a: "length (inputs_m eng) = length (graph_inputs (graph_m eng)) \<and> OtherIV \<in> set (inputs_m eng)"
  then have f: "fst (getGraphIntputShape eng) = Some InputTypeUnsupported"
    using getGraphIntputShape_loop_unsupported
      [of "graph_inputs (graph_m eng)" "inputs_m eng" "shapeMap_m eng"]
    by (auto simp add: getGraphIntputShape_def split: prod.splits)
  then have r: "run eng = getGraphIntputShape eng"
    using a by (cases "getGraphIntputShape eng") (simp add: run_def)
  show "fst (run eng) = Some InputTypeUnsupported" using f r by simp
  show "outputShape_m (snd (run eng)) = outputShape_m eng"
    using r getGraphIntputShape_outputShape [of eng] by simp
next
  assume a: "length (inputs_m eng) = length (graph_inputs (graph_m eng)) \<and>
    getGraphIntputShape eng = (None, eng1) \<and>
    graph_nodes (graph_m eng) = pre @ node # post \<and>
    run_nodes pre eng1 = (None, eng2) \<and>
    shapeOnNode node eng2 = (Some e, eng3)"
  have g: "graph_m eng1 = graph_m eng"
    using a getGraphIntputShape_graph [of eng] by simp
  have rn: "run_nodes (graph_nodes (graph_m eng1)) eng1 = (Some e, eng3)"
    using a g run_nodes_first_failure [of pre eng1 eng2 node e eng3 post] by simp
  have r: "run eng = (Some e, eng3)"
    using a rn by (simp add: run_def)
  have o1: "outputShape_m eng1 = outputShape_m eng"
    using a getGraphIntputShape_outputShape [of eng] by simp
  have o3: "outputShape_m eng3 = outputShape_m eng1"
    using rn run_nodes_outputShape [of "graph_nodes (graph_m eng1)" eng1] by simp
  show "fst (run eng) = Some e" using r by simp
  show "outputShape_m (snd (run eng)) = outputShape_m eng" using r o1 o3 by simp
qed


theorem run_failures_witness:
  "fst (run (new_engine list_of_tensor_graph [] False)) = Some NumInputsMismatch \<and>
   fst (run (new_engine list_of_tensor_graph [OtherIV] False)) = Some InputTypeUnsupported \<and>
   outputShape_m (snd (run (new_engine list_of_tensor_graph [OtherIV] False))) = [] \<and>
   fst (run (new_engine list_of_tensor_graph [TensorIV [2, 3]] False)) = Some ExpectedIntInListConstruct \<and>
   outputShape_m (snd (run (new_engine list_of_tensor_graph [TensorIV [2, 3]] False))) = []"
  using run_failures [of "new_engine list_of_tensor_graph [] False"]
    run_failures [of "new_engine list_of_tensor_graph [OtherIV] False"]
    run_failures [of "new_engine list_of_tensor_graph [TensorIV [2, 3]] False"
           "snd (getGraphIntputShape (new_engine list_of_tensor_graph [TensorIV [2, 3]] False))"
           "[]" "mk_node prim_ListConstruct [0] [1]" "[]"
           "snd (getGraphIntputShape (new_engine list_of_tensor_graph [TensorIV [2, 3]] False))"
           ExpectedIntInListConstruct
           "snd (getGraphIntputShape (new_engine list_of_tensor_graph [TensorIV [2, 3]] False))"]
  by (simp add: new_engine_def list_of_tensor_graph_def mk_node_def
      getGraphIntputShape_def set_shape_def set_intValue_def shapeOnNode_def
      shapeOnNode_rule_def one_result_def listConstruct_def vec_at_def)

subsection \<open>Sign of the stored dimensions\<close>




end
